theory Spec2Isabelle
  imports Main "HOL-Library.Word" "HOL-Library.AList"
begin

unbundle bit_operations_syntax

section \<open>Python values\<close>

text \<open>
  A Python string is a sequence of code points, here natural numbers (Python holds code
  points below \<open>0x110000\<close>, the surrogates \<open>0xD800\<close> to \<open>0xDFFF\<close> included). \<open>lit\<close> gives
  the string of an ASCII literal.
\<close>

type_synonym pystr = "nat list"

definition lit :: "string \<Rightarrow> pystr" where
  "lit s = map of_char s"

text \<open>
  The values that \<^verbatim>\<open>json.loads\<close> produces and that the engine hands to a snippet:
  \<^verbatim>\<open>None\<close>, booleans, unbounded integers, strings, lists and dicts with string keys.
  A dict is an association list in insertion order (its keys are distinct in Python).
  A float is carried as the text \<^verbatim>\<open>repr\<close> prints for it: floating-point arithmetic is
  not modelled, and the program only ever takes the string form of a payload value.
\<close>

datatype pyval =
    PyNone
  | PyBool bool
  | PyInt int
  | PyFloat pystr
  | PyStr pystr
  | PyList "pyval list"
  | PyDict "(pystr \<times> pyval) list"

type_synonym pydict = "(pystr \<times> pyval) list"

section \<open>Exceptions\<close>

text \<open>
  An exception has a class, the outcome of \<^verbatim>\<open>str(e)\<close> and the names of the functions of
  the snippet whose frames its traceback holds. The class records what the handlers of
  the program test, \<^verbatim>\<open>except TypeError\<close> and \<^verbatim>\<open>except Exception\<close>:
  \<open>TypeError\<close> is that class or one below it,
  \<open>OtherException\<close> is any other class below \<^verbatim>\<open>Exception\<close>, and \<open>NonException\<close> a class
  below \<^verbatim>\<open>BaseException\<close> only (\<^verbatim>\<open>SystemExit\<close>, \<^verbatim>\<open>KeyboardInterrupt\<close>,
  \<^verbatim>\<open>GeneratorExit\<close>), both with the name of the class. \<^verbatim>\<open>str(e)\<close> runs the method
  \<^verbatim>\<open>__str__\<close> of the class, which returns a text (\<open>Inr\<close>) or raises (\<open>Inl\<close>), the
  same at every call.
\<close>

datatype exc_class =
    TypeError
  | ValueError
  | UnicodeEncodeError
  | OtherException string
  | NonException string

datatype py_exc =
  PyExc (exc_class: exc_class) (exc_str: "py_exc + pystr") (exc_trace: "pystr list")

fun is_Exception :: "py_exc \<Rightarrow> bool" where
  "is_Exception (PyExc (NonException _) _ _) = False"
| "is_Exception (PyExc _ _ _) = True"

fun is_TypeError :: "py_exc \<Rightarrow> bool" where
  "is_TypeError (PyExc TypeError _ _) = True"
| "is_TypeError (PyExc _ _ _) = False"

text \<open>An exception that passes through the frame of a function of the snippet.\<close>

definition raised_in :: "pystr \<Rightarrow> py_exc \<Rightarrow> py_exc" where
  "raised_in name e = PyExc (exc_class e) (exc_str e) (name # exc_trace e)"

section \<open>\<^verbatim>\<open>str\<close>, \<^verbatim>\<open>repr\<close>, slices and \<^verbatim>\<open>in\<close>\<close>

definition backslash :: nat where
  "backslash = 92"

definition single_quote :: nat where
  "single_quote = 39"

definition double_quote :: nat where
  "double_quote = 34"

definition newline :: nat where
  "newline = 10"

fun str_of_nat :: "nat \<Rightarrow> pystr" where
  "str_of_nat n = (if n < 10 then [48 + n] else str_of_nat (n div 10) @ [48 + n mod 10])"

declare str_of_nat.simps [simp del]

definition str_of_int :: "int \<Rightarrow> pystr" where
  "str_of_int i = (if i < 0 then 45 # str_of_nat (nat (- i)) else str_of_nat (nat i))"

definition hex_alphabet :: pystr where
  "hex_alphabet = lit ''0123456789abcdef''"

definition hex_digit :: "nat \<Rightarrow> nat" where
  "hex_digit n = hex_alphabet ! (n mod 16)"

text \<open>The last \<open>w\<close> hexadecimal digits of a number, lower case.\<close>

fun hex_digits :: "nat \<Rightarrow> nat \<Rightarrow> pystr" where
  "hex_digits 0 n = []"
| "hex_digits (Suc w) n = hex_digits w (n div 16) @ [hex_digit n]"

text \<open>
  One character of \<^verbatim>\<open>repr(s)\<close> for a string, given the quote character chosen. Which
  characters above ASCII are printable is a table of the Unicode database, outside the
  program: it is the parameter \<open>isprintable\<close>.
\<close>

definition repr_char :: "(nat \<Rightarrow> bool) \<Rightarrow> nat \<Rightarrow> nat \<Rightarrow> pystr" where
  "repr_char isprintable quote c =
     (if c = quote \<or> c = backslash then [backslash, c]
      else if c = 9 then [backslash, 116]
      else if c = 10 then [backslash, 110]
      else if c = 13 then [backslash, 114]
      else if c < 32 \<or> c = 127 then [backslash, 120] @ hex_digits 2 c
      else if c < 127 then [c]
      else if isprintable c then [c]
      else if c < 256 then [backslash, 120] @ hex_digits 2 c
      else if c < 65536 then [backslash, 117] @ hex_digits 4 c
      else [backslash, 85] @ hex_digits 8 c)"

definition repr_str :: "(nat \<Rightarrow> bool) \<Rightarrow> pystr \<Rightarrow> pystr" where
  "repr_str isprintable s =
     (let quote = (if single_quote \<in> set s \<and> double_quote \<notin> set s
                   then double_quote else single_quote)
      in quote # concat (map (repr_char isprintable quote) s) @ [quote])"

fun join :: "'a list \<Rightarrow> 'a list list \<Rightarrow> 'a list" where
  "join sep [] = []"
| "join sep [x] = x"
| "join sep (x # y # ys) = x @ sep @ join sep (y # ys)"

fun py_repr :: "(nat \<Rightarrow> bool) \<Rightarrow> pyval \<Rightarrow> pystr" where
  "py_repr isprintable PyNone = lit ''None''"
| "py_repr isprintable (PyBool b) = (if b then lit ''True'' else lit ''False'')"
| "py_repr isprintable (PyInt i) = str_of_int i"
| "py_repr isprintable (PyFloat r) = r"
| "py_repr isprintable (PyStr s) = repr_str isprintable s"
| "py_repr isprintable (PyList xs) =
     lit ''['' @ join (lit '', '') (map (py_repr isprintable) xs) @ lit '']''"
| "py_repr isprintable (PyDict kvs) =
     lit ''{''
       @ join (lit '', '')
           (map (\<lambda>kv. repr_str isprintable (fst kv) @ lit '': '' @ py_repr isprintable (snd kv)) kvs)
       @ lit ''}''"

text \<open>
  The interpreter (CPython from 3.11 on, as it is set by default) refuses to print an
  integer of more than 4300 digits (\<^verbatim>\<open>sys.get_int_max_str_digits()\<close>), alone or inside
  a list or a dict.
\<close>

definition int_max_str_digits :: nat where
  "int_max_str_digits = 4300"

fun too_long :: "pyval \<Rightarrow> bool" where
  "too_long (PyInt i) = (int_max_str_digits < length (str_of_nat (nat \<bar>i\<bar>)))"
| "too_long (PyList xs) = list_ex too_long xs"
| "too_long (PyDict kvs) = list_ex (\<lambda>kv. too_long (snd kv)) kvs"
| "too_long _ = False"

definition int_limit_error :: py_exc where
  "int_limit_error =
     PyExc ValueError
       (Inr (lit (''Exceeds the limit (4300 digits) for integer string conversion; ''
                  @ ''use sys.set_int_max_str_digits() to increase the limit'')))
       []"

text \<open>\<^verbatim>\<open>str(v)\<close>\<close>

definition py_str :: "(nat \<Rightarrow> bool) \<Rightarrow> pyval \<Rightarrow> py_exc + pystr" where
  "py_str isprintable v =
     (case v of
        PyStr s \<Rightarrow> Inr s
      | _ \<Rightarrow> if too_long v then Inl int_limit_error else Inr (py_repr isprintable v))"

text \<open>\<^verbatim>\<open>type(v).__name__\<close>, as it appears in the interpreter's messages.\<close>

fun type_name :: "pyval \<Rightarrow> pystr" where
  "type_name PyNone = lit ''NoneType''"
| "type_name (PyBool _) = lit ''bool''"
| "type_name (PyInt _) = lit ''int''"
| "type_name (PyFloat _) = lit ''float''"
| "type_name (PyStr _) = lit ''str''"
| "type_name (PyList _) = lit ''list''"
| "type_name (PyDict _) = lit ''dict''"

text \<open>\<^verbatim>\<open>s[i:]\<close> and \<^verbatim>\<open>s[:i]\<close>: a negative index counts from the end, and both clamp.\<close>

definition slice_index :: "'a list \<Rightarrow> int \<Rightarrow> nat" where
  "slice_index s i =
     (let n = int (length s) in nat (if i < 0 then max 0 (n + i) else min i n))"

definition py_slice_from :: "'a list \<Rightarrow> int \<Rightarrow> 'a list" where
  "py_slice_from s i = drop (slice_index s i) s"

definition py_slice_to :: "'a list \<Rightarrow> int \<Rightarrow> 'a list" where
  "py_slice_to s i = take (slice_index s i) s"

fun starts_with :: "'a list \<Rightarrow> 'a list \<Rightarrow> bool" where
  "starts_with s [] = True"
| "starts_with [] (c # cs) = False"
| "starts_with (d # ds) (c # cs) = (d = c \<and> starts_with ds cs)"

text \<open>\<^verbatim>\<open>needle in s\<close> on strings\<close>

fun py_in :: "'a list \<Rightarrow> 'a list \<Rightarrow> bool" where
  "py_in needle [] = (needle = [])"
| "py_in needle (c # cs) = (starts_with (c # cs) needle \<or> py_in needle cs)"

section \<open>The default snippet: \<^verbatim>\<open>generate\<close>\<close>

text \<open>
  \<^verbatim>\<open>hmac.new(key, msg, hashlib.sha256)\<close> belongs to Python's library. It is written
  out here from FIPS 180-4 (SHA-256) and RFC 2104 (HMAC), on bytes.
\<close>

type_synonym byte = "8 word"

type_synonym word32 = "32 word"

definition K256 :: "word32 list" where
  "K256 =
     [0x428A2F98, 0x71374491, 0xB5C0FBCF, 0xE9B5DBA5,
      0x3956C25B, 0x59F111F1, 0x923F82A4, 0xAB1C5ED5,
      0xD807AA98, 0x12835B01, 0x243185BE, 0x550C7DC3,
      0x72BE5D74, 0x80DEB1FE, 0x9BDC06A7, 0xC19BF174,
      0xE49B69C1, 0xEFBE4786, 0x0FC19DC6, 0x240CA1CC,
      0x2DE92C6F, 0x4A7484AA, 0x5CB0A9DC, 0x76F988DA,
      0x983E5152, 0xA831C66D, 0xB00327C8, 0xBF597FC7,
      0xC6E00BF3, 0xD5A79147, 0x06CA6351, 0x14292967,
      0x27B70A85, 0x2E1B2138, 0x4D2C6DFC, 0x53380D13,
      0x650A7354, 0x766A0ABB, 0x81C2C92E, 0x92722C85,
      0xA2BFE8A1, 0xA81A664B, 0xC24B8B70, 0xC76C51A3,
      0xD192E819, 0xD6990624, 0xF40E3585, 0x106AA070,
      0x19A4C116, 0x1E376C08, 0x2748774C, 0x34B0BCB5,
      0x391C0CB3, 0x4ED8AA4A, 0x5B9CCA4F, 0x682E6FF3,
      0x748F82EE, 0x78A5636F, 0x84C87814, 0x8CC70208,
      0x90BEFFFA, 0xA4506CEB, 0xBEF9A3F7, 0xC67178F2]"

definition H256 :: "word32 list" where
  "H256 =
     [0x6A09E667, 0xBB67AE85, 0x3C6EF372, 0xA54FF53A,
      0x510E527F, 0x9B05688C, 0x1F83D9AB, 0x5BE0CD19]"

definition Ch :: "word32 \<Rightarrow> word32 \<Rightarrow> word32 \<Rightarrow> word32" where
  "Ch x y z = (x AND y) XOR (NOT x AND z)"

definition Maj :: "word32 \<Rightarrow> word32 \<Rightarrow> word32 \<Rightarrow> word32" where
  "Maj x y z = (x AND y) XOR (x AND z) XOR (y AND z)"

definition big_sigma0 :: "word32 \<Rightarrow> word32" where
  "big_sigma0 x = word_rotr 2 x XOR word_rotr 13 x XOR word_rotr 22 x"

definition big_sigma1 :: "word32 \<Rightarrow> word32" where
  "big_sigma1 x = word_rotr 6 x XOR word_rotr 11 x XOR word_rotr 25 x"

definition small_sigma0 :: "word32 \<Rightarrow> word32" where
  "small_sigma0 x = word_rotr 7 x XOR word_rotr 18 x XOR drop_bit 3 x"

definition small_sigma1 :: "word32 \<Rightarrow> word32" where
  "small_sigma1 x = word_rotr 17 x XOR word_rotr 19 x XOR drop_bit 10 x"

text \<open>Big-endian conversions between bytes and 32-bit words.\<close>

fun words_of_bytes :: "byte list \<Rightarrow> word32 list" where
  "words_of_bytes (a # b # c # d # bs) =
     (push_bit 24 (ucast a) OR push_bit 16 (ucast b) OR push_bit 8 (ucast c) OR ucast d)
       # words_of_bytes bs"
| "words_of_bytes _ = []"

definition bytes_of_word :: "word32 \<Rightarrow> byte list" where
  "bytes_of_word w = [ucast (drop_bit 24 w), ucast (drop_bit 16 w), ucast (drop_bit 8 w), ucast w]"

text \<open>The message length in bits, as eight big-endian bytes.\<close>

definition length_bytes :: "nat \<Rightarrow> byte list" where
  "length_bytes n = map (\<lambda>i. of_nat ((8 * n) div 2 ^ (8 * (7 - i)))) [0..<8]"

definition sha256_pad :: "byte list \<Rightarrow> byte list" where
  "sha256_pad msg =
     msg @ [0x80] @ replicate ((119 - length msg mod 64) mod 64) 0 @ length_bytes (length msg)"

fun split_blocks :: "byte list \<Rightarrow> byte list list" where
  "split_blocks bs = (if length bs < 64 then [] else take 64 bs # split_blocks (drop 64 bs))"

declare split_blocks.simps [simp del]

text \<open>The message schedule: sixteen words of the block, extended to sixty-four.\<close>

fun schedule :: "nat \<Rightarrow> word32 list \<Rightarrow> word32 list" where
  "schedule 0 w = w"
| "schedule (Suc n) w =
     (let t = length w
      in schedule n
           (w @ [small_sigma1 (w ! (t - 2)) + w ! (t - 7) + small_sigma0 (w ! (t - 15))
                  + w ! (t - 16)]))"

text \<open>One round on the working variables \<open>a\<close> to \<open>h\<close>, held as a list of eight words.\<close>

fun sha256_round :: "word32 list \<Rightarrow> word32 \<times> word32 \<Rightarrow> word32 list" where
  "sha256_round [a, b, c, d, e, f, g, h] (k, w) =
     (let t1 = h + big_sigma1 e + Ch e f g + k + w;
          t2 = big_sigma0 a + Maj a b c
      in [t1 + t2, a, b, c, d + t1, e, f, g])"
| "sha256_round s _ = s"

definition compress :: "word32 list \<Rightarrow> byte list \<Rightarrow> word32 list" where
  "compress hs block =
     map2 (+) hs (foldl sha256_round hs (zip K256 (schedule 48 (words_of_bytes block))))"

definition sha256 :: "byte list \<Rightarrow> byte list" where
  "sha256 msg = concat (map bytes_of_word (foldl compress H256 (split_blocks (sha256_pad msg))))"

definition hmac_sha256 :: "byte list \<Rightarrow> byte list \<Rightarrow> byte list" where
  "hmac_sha256 key msg =
     (let k = (if 64 < length key then sha256 key else key);
          k = k @ replicate (64 - length k) 0;
          ipad = map (\<lambda>b. b XOR 0x36) k;
          opad = map (\<lambda>b. b XOR 0x5C) k
      in sha256 (opad @ sha256 (ipad @ msg)))"

text \<open>
  Every construction of an HMAC object is logged with its key and message bytes, so that
  a run that never reaches the signing step is told apart from one that does.
\<close>

type_synonym hmac_call = "byte list \<times> byte list"

text \<open>
  \<^verbatim>\<open>s.encode('utf-8')\<close>. A surrogate has no UTF-8 form: the codec raises
  \<^verbatim>\<open>UnicodeEncodeError\<close>, naming the first surrogate and its position, or the positions
  of the run of surrogates that starts there.
\<close>

definition is_surrogate :: "nat \<Rightarrow> bool" where
  "is_surrogate c = (0xD800 \<le> c \<and> c \<le> 0xDFFF)"

definition utf8_char :: "nat \<Rightarrow> byte list" where
  "utf8_char c =
     (if c < 0x80 then [of_nat c]
      else if c < 0x800 then [of_nat (0xC0 + c div 64), of_nat (0x80 + c mod 64)]
      else if c < 0x10000 then
        [of_nat (0xE0 + c div 4096), of_nat (0x80 + c div 64 mod 64), of_nat (0x80 + c mod 64)]
      else
        [of_nat (0xF0 + c div 262144), of_nat (0x80 + c div 4096 mod 64),
         of_nat (0x80 + c div 64 mod 64), of_nat (0x80 + c mod 64)])"

definition utf8 :: "pystr \<Rightarrow> byte list" where
  "utf8 s = concat (map utf8_char s)"

definition surrogate_error :: "nat \<Rightarrow> nat \<Rightarrow> nat \<Rightarrow> py_exc" where
  "surrogate_error start c more =
     PyExc UnicodeEncodeError
       (Inr ([single_quote] @ lit ''utf-8'' @ [single_quote] @ lit '' codec can't encode ''
             @ (if more = 0 then
                  lit ''character '' @ [single_quote] @ [backslash, 117] @ hex_digits 4 c
                    @ [single_quote] @ lit '' in position '' @ str_of_nat start
                else
                  lit ''characters in position '' @ str_of_nat start @ lit ''-''
                    @ str_of_nat (start + more))
             @ lit '': surrogates not allowed''))
       []"

definition encode_utf8 :: "pystr \<Rightarrow> py_exc + byte list" where
  "encode_utf8 s =
     (case dropWhile (\<lambda>c. \<not> is_surrogate c) s of
        [] \<Rightarrow> Inr (utf8 s)
      | c # rest \<Rightarrow>
          Inl (surrogate_error (length (takeWhile (\<lambda>c. \<not> is_surrogate c) s)) c
                 (length (takeWhile is_surrogate rest))))"

text \<open>\<^verbatim>\<open>.hexdigest()\<close>: two lower-case hexadecimal digits per byte.\<close>

definition hex_byte :: "byte \<Rightarrow> pystr" where
  "hex_byte b = [hex_digit (unat b div 16), hex_digit (unat b mod 16)]"

definition hexdigest :: "byte list \<Rightarrow> pystr" where
  "hexdigest bs = concat (map hex_byte bs)"

definition invalid_passcode :: py_exc where
  "invalid_passcode =
     PyExc ValueError (Inr (lit ''PassCode must be at least 16 characters long.''))
       [lit ''generate'']"

text \<open>
  \<^verbatim>\<open>[k for k in payload.keys() if k != 'hash' and k != '__keys_order__']\<close>
\<close>

definition default_keys :: "pydict \<Rightarrow> pystr list" where
  "default_keys payload =
     filter (\<lambda>k. k \<noteq> lit ''hash'' \<and> k \<noteq> lit ''__keys_order__'') (map fst payload)"

text \<open>
  Step 3 of the snippet. \<^verbatim>\<open>if key_order:\<close> is Python's truth test: \<^verbatim>\<open>None\<close> and the
  empty list are both false.
\<close>

definition keys_to_sign :: "pydict \<Rightarrow> pystr list option \<Rightarrow> pystr list" where
  "keys_to_sign payload key_order =
     (case key_order of
        None \<Rightarrow> default_keys payload
      | Some ks \<Rightarrow> if ks \<noteq> [] then ks else default_keys payload)"

text \<open>
  The body of the loop of step 4:
  \<^verbatim>\<open>val = payload.get(k)\<close>, \<^verbatim>\<open>if val is None: val = ""\<close>, then \<^verbatim>\<open>str(val)\<close>.
\<close>

definition payload_get :: "pydict \<Rightarrow> pystr \<Rightarrow> pyval" where
  "payload_get payload k = (case map_of payload k of None \<Rightarrow> PyNone | Some v \<Rightarrow> v)"

definition field_text :: "(nat \<Rightarrow> bool) \<Rightarrow> pydict \<Rightarrow> pystr \<Rightarrow> py_exc + pystr" where
  "field_text isprintable payload k =
     (let val = payload_get payload k;
          val = (if val = PyNone then PyStr [] else val)
      in py_str isprintable val)"

text \<open>
  The loop of step 4, \<^verbatim>\<open>concat_str += str(val)\<close> for each key in turn; it stops at the
  first \<^verbatim>\<open>str\<close> that raises.
\<close>

fun concat_values :: "(nat \<Rightarrow> bool) \<Rightarrow> pydict \<Rightarrow> pystr \<Rightarrow> pystr list \<Rightarrow> py_exc + pystr" where
  "concat_values isprintable payload concat_str [] = Inr concat_str"
| "concat_values isprintable payload concat_str (k # ks) =
     (case field_text isprintable payload k of
        Inl e \<Rightarrow> Inl e
      | Inr text \<Rightarrow> concat_values isprintable payload (concat_str @ text) ks)"

text \<open>
  \<^verbatim>\<open>generate(payload, passcode, api_key="", key_order=None)\<close>. The argument \<open>api_key\<close>
  is \<open>None\<close> for Python's \<^verbatim>\<open>None\<close>; \<open>key_order\<close> likewise. The result is what the function
  returns or raises, with the log of the calls made to \<^verbatim>\<open>hmac.new\<close>. The arguments of
  \<^verbatim>\<open>hmac.new\<close> are evaluated first, the key before the message.
\<close>

definition generate ::
  "(nat \<Rightarrow> bool) \<Rightarrow> pydict \<Rightarrow> pystr \<Rightarrow> pystr option \<Rightarrow> pystr list option
     \<Rightarrow> (py_exc + pystr) \<times> hmac_call list" where
  "generate isprintable payload passcode api_key key_order =
     (if length passcode < 16 then (Inl invalid_passcode, [])
      else
        let iv = py_slice_from passcode (- 16);
            key = py_slice_to passcode (- 16);
            concat_str = (case api_key of None \<Rightarrow> [] | Some a \<Rightarrow> if a \<noteq> [] then a else [])
        in case concat_values isprintable payload concat_str (keys_to_sign payload key_order) of
             Inl e \<Rightarrow> (Inl (raised_in (lit ''generate'') e), [])
           | Inr concat_str \<Rightarrow>
               (let message = iv @ concat_str
                in case encode_utf8 key of
                     Inl e \<Rightarrow> (Inl (raised_in (lit ''generate'') e), [])
                   | Inr key_bytes \<Rightarrow>
                       (case encode_utf8 message of
                          Inl e \<Rightarrow> (Inl (raised_in (lit ''generate'') e), [])
                        | Inr message_bytes \<Rightarrow>
                            (Inr (hexdigest (hmac_sha256 key_bytes message_bytes)),
                             [(key_bytes, message_bytes)]))))"

text \<open>
  The algorithm in the words of its specification: the IV is the last sixteen characters
  of the passcode and the key is what precedes them; a payload value that is missing or
  \<^verbatim>\<open>None\<close> contributes nothing, any other its string form; the message is the IV, the
  API key and the fields in order; the digest is the lower-case hexadecimal HMAC-SHA256
  of the UTF-8 bytes of the message under those of the key.
\<close>

definition spec_iv :: "pystr \<Rightarrow> pystr" where
  "spec_iv passcode = drop (length passcode - 16) passcode"

definition spec_key :: "pystr \<Rightarrow> pystr" where
  "spec_key passcode = take (length passcode - 16) passcode"

definition spec_field :: "(nat \<Rightarrow> bool) \<Rightarrow> pydict \<Rightarrow> pystr \<Rightarrow> pystr" where
  "spec_field isprintable payload k =
     (case map_of payload k of
        None \<Rightarrow> []
      | Some v \<Rightarrow> (case v of PyNone \<Rightarrow> [] | PyStr s \<Rightarrow> s | _ \<Rightarrow> py_repr isprintable v))"

definition spec_message ::
  "(nat \<Rightarrow> bool) \<Rightarrow> pydict \<Rightarrow> pystr \<Rightarrow> pystr option \<Rightarrow> pystr list \<Rightarrow> pystr" where
  "spec_message isprintable payload passcode api_key order =
     spec_iv passcode @ (case api_key of None \<Rightarrow> [] | Some a \<Rightarrow> a)
       @ concat (map (spec_field isprintable payload) order)"

definition spec_digest :: "pystr \<Rightarrow> pystr \<Rightarrow> pystr" where
  "spec_digest key message = hexdigest (hmac_sha256 (utf8 key) (utf8 message))"

text \<open>
  What the specification leaves out: a string can be signed when none of its characters
  is a surrogate, and a field can be printed when its value holds no integer of more than
  4300 digits.
\<close>

definition encodable :: "pystr \<Rightarrow> bool" where
  "encodable s = list_all (\<lambda>c. \<not> is_surrogate c) s"

definition printable_field :: "pydict \<Rightarrow> pystr \<Rightarrow> bool" where
  "printable_field payload k = (\<not> too_long (payload_get payload k))"

section \<open>The engine: \<^verbatim>\<open>CryptoEngine.execute_snippet\<close>\<close>

text \<open>
  What a name in the snippet's namespace is bound to: a function made by \<^verbatim>\<open>def\<close>, with
  its name, its positional parameters, the default values of the last of them and its
  body, or a value that cannot be called. The body maps the values bound to the
  parameters to what the call returns or raises. Other callables (classes, built-in
  functions, functions with \<^verbatim>\<open>*args\<close>) and bodies that do not return are not modelled.
\<close>

datatype pyobj =
    Function (fn_name: pystr) (fn_params: "pystr list") (fn_defaults: "pyval list")
      (fn_body: "pyval list \<Rightarrow> py_exc + pyval")
  | Object pyval

text \<open>
  The interpreter's messages for a call with the wrong number of positional arguments.
  The names of parameters are identifiers, which \<^verbatim>\<open>repr\<close> prints between single
  quotes as they are.
\<close>

definition too_many_msg :: "pystr \<Rightarrow> nat \<Rightarrow> nat \<Rightarrow> nat \<Rightarrow> pystr" where
  "too_many_msg name k d n =
     name @ lit ''() takes ''
       @ (if d = 0 then str_of_nat k
          else lit ''from '' @ str_of_nat (k - d) @ lit '' to '' @ str_of_nat k)
       @ lit '' positional '' @ lit ''argument'' @ (if d = 0 \<and> k = 1 then [] else lit ''s'')
       @ lit '' but '' @ str_of_nat n @ (if n = 1 then lit '' was'' else lit '' were'')
       @ lit '' given''"

definition quoted :: "pystr \<Rightarrow> pystr" where
  "quoted name = [single_quote] @ name @ [single_quote]"

fun name_list :: "pystr list \<Rightarrow> pystr" where
  "name_list [] = []"
| "name_list [a] = a"
| "name_list [a, b] = a @ lit '' and '' @ b"
| "name_list [a, b, c] = a @ lit '', '' @ b @ lit '', and '' @ c"
| "name_list (a # bs) = a @ lit '', '' @ name_list bs"

definition missing_msg :: "pystr \<Rightarrow> pystr list \<Rightarrow> pystr" where
  "missing_msg name missing =
     name @ lit ''() missing '' @ str_of_nat (length missing) @ lit '' required positional ''
       @ lit ''argument'' @ (if length missing = 1 then [] else lit ''s'') @ lit '': ''
       @ name_list (map quoted missing)"

definition not_callable :: "pyval \<Rightarrow> py_exc" where
  "not_callable v =
     PyExc TypeError (Inr (quoted (type_name v) @ lit '' object is not callable'')) []"

text \<open>A call \<^verbatim>\<open>f(*args)\<close> with positional arguments only.\<close>

fun py_call :: "pyobj \<Rightarrow> pyval list \<Rightarrow> py_exc + pyval" where
  "py_call (Object v) args = Inl (not_callable v)"
| "py_call (Function name params defaults body) args =
     (let k = length params; d = length defaults; n = length args
      in if k < n then Inl (PyExc TypeError (Inr (too_many_msg name k d n)) [])
         else if n < k - d then
           Inl (PyExc TypeError (Inr (missing_msg name (take (k - d - n) (drop n params)))) [])
         else body (args @ drop (n - (k - d)) defaults))"

text \<open>
  What \<^verbatim>\<open>exec(snippet_code, global_scope, local_scope)\<close> does with a snippet. Python's
  evaluator is not part of the program, so a snippet enters as the outcome of running its
  top level: an exception, or the names it has bound in \<^verbatim>\<open>local_scope\<close>.
\<close>

datatype exec_result = ExecRaises py_exc | ExecDone "pystr \<Rightarrow> pyobj option"

definition missing_generate :: py_exc where
  "missing_generate =
     PyExc ValueError (Inr (lit ''Snippet must define a 'generate' function.'')) []"

text \<open>
  Where the exception that reaches the outer handler comes from: the \<^verbatim>\<open>exec\<close> of line
  140, the \<^verbatim>\<open>raise\<close> of line 143, the call of line 150, the \<^verbatim>\<open>raise te\<close> of line 155,
  and, while the \<^verbatim>\<open>TypeError\<close> \<open>te\<close> is being handled, the \<^verbatim>\<open>str(te)\<close> of line 152 or
  the second call of line 154. What \<^verbatim>\<open>traceback.format_exc\<close> prints depends on this
  path, on the exception and on the machine: it is a parameter.
\<close>

datatype raised_at =
    AtExec
  | AtCheck
  | AtCall
  | AtReraise
  | AtMessage py_exc
  | AtRetry py_exc

type_synonym traceback_printer = "raised_at \<Rightarrow> py_exc \<Rightarrow> pystr"

text \<open>
  The inner \<^verbatim>\<open>try\<close>: the call with four arguments, and in the handler of
  \<^verbatim>\<open>TypeError\<close> the test of \<^verbatim>\<open>str(te)\<close>, then the call with three arguments or
  \<^verbatim>\<open>raise te\<close>.
\<close>

definition call_generate ::
  "pyobj \<Rightarrow> pyval \<Rightarrow> pyval \<Rightarrow> pyval \<Rightarrow> pyval \<Rightarrow> raised_at \<times> py_exc + pyval" where
  "call_generate generate_func payload passcode api_key key_order =
     (case py_call generate_func [payload, passcode, api_key, key_order] of
        Inr v \<Rightarrow> Inr v
      | Inl te \<Rightarrow>
          if is_TypeError te then
            (case exc_str te of
               Inl e \<Rightarrow> Inl (AtMessage te, e)
             | Inr message \<Rightarrow>
                 if py_in (lit ''positional argument'') message \<or> py_in (lit ''argument'') message
                 then (case py_call generate_func [payload, passcode, api_key] of
                         Inr v \<Rightarrow> Inr v
                       | Inl e \<Rightarrow> Inl (AtRetry te, e))
                 else Inl (AtReraise, te))
          else Inl (AtCall, te))"

text \<open>The body of the outer \<^verbatim>\<open>try\<close>.\<close>

definition try_body ::
  "exec_result \<Rightarrow> pyval \<Rightarrow> pyval \<Rightarrow> pyval \<Rightarrow> pyval \<Rightarrow> raised_at \<times> py_exc + pyval" where
  "try_body snippet payload passcode api_key key_order =
     (case snippet of
        ExecRaises e \<Rightarrow> Inl (AtExec, e)
      | ExecDone local_scope \<Rightarrow>
          (case local_scope (lit ''generate'') of
             None \<Rightarrow> Inl (AtCheck, missing_generate)
           | Some generate_func \<Rightarrow>
               call_generate generate_func payload passcode api_key key_order))"

text \<open>
  \<^verbatim>\<open>execute_snippet\<close>. \<open>Inr\<close> is the value returned; \<open>Inl\<close> is an exception that
  leaves the function. The handler builds
  \<^verbatim>\<open>f"Error: {str(e)}\n{traceback.format_exc()}"\<close>, \<^verbatim>\<open>str(e)\<close> first; an exception
  raised there leaves the function, the second \<^verbatim>\<open>except Exception\<close> clause belonging
  to the same \<^verbatim>\<open>try\<close> and being reached by nothing.
\<close>

definition execute_snippet ::
  "traceback_printer \<Rightarrow> exec_result \<Rightarrow> pyval \<Rightarrow> pyval \<Rightarrow> pyval \<Rightarrow> pyval \<Rightarrow> py_exc + pyval" where
  "execute_snippet format_exc snippet payload passcode api_key key_order =
     (case try_body snippet payload passcode api_key key_order of
        Inr v \<Rightarrow> Inr v
      | Inl (site, e) \<Rightarrow>
          if is_Exception e then
            (case exc_str e of
               Inl raised \<Rightarrow> Inl raised
             | Inr message \<Rightarrow>
                 Inr (PyStr (lit ''Error: '' @ message @ [newline] @ format_exc site e)))
          else Inl e)"

section \<open>The store: \<^verbatim>\<open>SnippetManager\<close>\<close>















section \<open>Sample snippets and environments\<close>

text \<open>
  Concrete inputs at which the statements below are evaluated. The table of printable
  characters is the right one below 256; the inputs are ASCII, where no table is
  consulted. The traceback printer prints the header lines only: one for an exception
  raised on its own, two around the notice of chaining for an exception raised while
  another one was being handled.
\<close>

definition sample_isprintable :: "nat \<Rightarrow> bool" where
  "sample_isprintable c = (160 < c \<and> c < 256 \<and> c \<noteq> 173)"

definition traceback_header :: pystr where
  "traceback_header = lit ''Traceback (most recent call last):'' @ [newline]"

definition chaining_notice :: pystr where
  "chaining_notice =
     [newline] @ lit ''During handling of the above exception, another exception occurred:''
       @ [newline, newline]"

definition sample_format_exc :: traceback_printer where
  "sample_format_exc site e =
     (case site of
        AtMessage te \<Rightarrow> traceback_header @ chaining_notice @ traceback_header
      | AtRetry te \<Rightarrow> traceback_header @ chaining_notice @ traceback_header
      | _ \<Rightarrow> traceback_header)"


text \<open>
  The function that the default snippet defines, on the arguments that the window passes
  when its key-order field is left empty (a dict, two strings and \<^verbatim>\<open>None\<close>); other
  shapes of arguments are left unspecified.
\<close>

fun generate_body :: "pyval list \<Rightarrow> py_exc + pyval" where
  "generate_body [PyDict payload, PyStr passcode, PyStr api_key, PyNone] =
     (case fst (generate sample_isprintable payload passcode (Some api_key) None) of
        Inl e \<Rightarrow> Inl e
      | Inr signature \<Rightarrow> Inr (PyStr signature))"

definition default_function :: pyobj where
  "default_function =
     Function (lit ''generate'')
       [lit ''payload'', lit ''passcode'', lit ''api_key'', lit ''key_order'']
       [PyStr [], PyNone] generate_body"

definition default_snippet :: exec_result where
  "default_snippet = ExecDone [lit ''generate'' \<mapsto> default_function]"

text \<open>
  \<^verbatim>\<open>def generate(payload, passcode, api_key): return passcode\<close>; a call binds exactly
  three values, so the second equation is never used.
\<close>

fun returns_passcode :: "pyval list \<Rightarrow> py_exc + pyval" where
  "returns_passcode [payload, passcode, api_key] = Inr passcode"
| "returns_passcode _ = Inr PyNone"

definition three_parameter_function :: pyobj where
  "three_parameter_function =
     Function (lit ''generate'') [lit ''payload'', lit ''passcode'', lit ''api_key''] []
       returns_passcode"

definition three_parameter_snippet :: exec_result where
  "three_parameter_snippet = ExecDone [lit ''generate'' \<mapsto> three_parameter_function]"






text \<open>
  \<^verbatim>\<open>def generate(payload, passcode, api_key, key_order): return 5\<close>
\<close>

fun returns_five :: "pyval list \<Rightarrow> py_exc + pyval" where
  "returns_five args = Inr (PyInt 5)"

definition integer_function :: pyobj where
  "integer_function =
     Function (lit ''generate'')
       [lit ''payload'', lit ''passcode'', lit ''api_key'', lit ''key_order''] [] returns_five"

definition integer_snippet :: exec_result where
  "integer_snippet = ExecDone [lit ''generate'' \<mapsto> integer_function]"





text \<open>The snippet \<^verbatim>\<open>generate = 5\<close>, and the snippet \<^verbatim>\<open>raise SystemExit(0)\<close>.\<close>

definition not_callable_snippet :: exec_result where
  "not_callable_snippet = ExecDone [lit ''generate'' \<mapsto> Object (PyInt 5)]"





section \<open>Properties of \<^verbatim>\<open>generate\<close>\<close>

lemma lit_append: "lit (a @ b) = lit a @ lit b"
  by (simp add: lit_def)

lemma length_lit: "length (lit s) = length s"
  by (simp add: lit_def)

lemma field_text_printable:
  assumes "printable_field payload k"
  shows "field_text isprintable payload k = Inr (spec_field isprintable payload k)"
proof (cases "map_of payload k")
  case None
  then show ?thesis
    by (simp add: field_text_def payload_get_def spec_field_def py_str_def)
next
  case (Some v)
  with assms have "\<not> too_long v"
    by (simp add: printable_field_def payload_get_def)
  with Some show ?thesis
    by (cases v) (simp_all add: field_text_def payload_get_def spec_field_def py_str_def)
qed

lemma concat_values_printable:
  assumes "list_all (printable_field payload) ks"
  shows "concat_values isprintable payload acc ks
           = Inr (acc @ concat (map (spec_field isprintable payload) ks))"
  using assms
  by (induction ks arbitrary: acc) (simp_all add: field_text_printable)

lemma encode_utf8_encodable:
  assumes "encodable s"
  shows "encode_utf8 s = Inr (utf8 s)"
proof -
  have none: "dropWhile (\<lambda>c. \<not> is_surrogate c) s = []"
    using assms by (simp add: encodable_def list_all_iff)
  show ?thesis unfolding encode_utf8_def none by simp
qed


lemma slice_index_last16: "16 \<le> length s \<Longrightarrow> slice_index s (- 16) = length s - 16"
  unfolding slice_index_def Let_def by (simp add: max_def)

lemma slice_from_last16: "16 \<le> length s \<Longrightarrow> py_slice_from s (- 16) = drop (length s - 16) s"
  by (simp add: py_slice_from_def slice_index_last16)

lemma slice_to_last16: "16 \<le> length s \<Longrightarrow> py_slice_to s (- 16) = take (length s - 16) s"
  by (simp add: py_slice_to_def slice_index_last16)












lemma generate_valid:
  assumes "16 \<le> length passcode"
    and "list_all (printable_field payload) (keys_to_sign payload key_order)"
    and "encodable (spec_key passcode)"
    and "encodable (spec_message isprintable payload passcode api_key (keys_to_sign payload key_order))"
  shows "generate isprintable payload passcode api_key key_order =
           (Inr (spec_digest (spec_key passcode)
                   (spec_message isprintable payload passcode api_key
                      (keys_to_sign payload key_order))),
            [(utf8 (spec_key passcode),
              utf8 (spec_message isprintable payload passcode api_key
                      (keys_to_sign payload key_order)))])"
proof -
  let ?order = "keys_to_sign payload key_order"
  let ?api = "case api_key of None \<Rightarrow> [] | Some a \<Rightarrow> if a \<noteq> [] then a else []"
  have api: "?api = (case api_key of None \<Rightarrow> [] | Some a \<Rightarrow> a)"
    by (simp split: option.split)
  have fields: "concat_values isprintable payload ?api ?order
                  = Inr (?api @ concat (map (spec_field isprintable payload) ?order))"
    using assms(2) by (rule concat_values_printable)
  have message: "py_slice_from passcode (- 16) @ ?api @ concat (map (spec_field isprintable payload) ?order)
                   = spec_message isprintable payload passcode api_key ?order"
    using assms(1) by (simp add: spec_message_def spec_iv_def slice_from_last16 api)
  have key: "py_slice_to passcode (- 16) = spec_key passcode"
    using assms(1) by (simp add: spec_key_def slice_to_last16)
  show ?thesis
    using assms(1) fields
      encode_utf8_encodable [OF assms(3)] encode_utf8_encodable [OF assms(4)]
    unfolding generate_def Let_def
    by (simp add: key message spec_digest_def del: append_assoc)
qed









text \<open>
  Claim C2. With a passcode of fewer than sixteen characters, \<open>generate\<close> raises a
  \<^verbatim>\<open>ValueError\<close> whose message says that the passcode must be at least 16 characters
  long, whatever the other arguments are, and computes no HMAC.
\<close>

theorem short_passcode_rejected:
  assumes "length passcode < 16"
  shows "generate isprintable payload passcode api_key key_order = (Inl invalid_passcode, [])
         \<and> exc_class invalid_passcode = ValueError
         \<and> exc_str invalid_passcode = Inr (lit ''PassCode must be at least 16 characters long.'')
         \<and> py_in (lit ''must be at least 16 characters'')
               (lit ''PassCode must be at least 16 characters long.'')"
  using assms by (simp add: generate_def invalid_passcode_def lit_def)

theorem short_passcode_rejected_witness:
  "length (lit ''short'') < 16 \<and>
   generate sample_isprintable [(lit ''username'', PyStr (lit ''user''))] (lit ''short'')
       (Some (lit ''k'')) (Some [lit ''username''])
     = (Inl (PyExc ValueError (Inr (lit ''PassCode must be at least 16 characters long.''))
               [lit ''generate'']),
        [])"
  using short_passcode_rejected [of "lit ''short''" sample_isprintable
      "[(lit ''username'', PyStr (lit ''user''))]" "Some (lit ''k'')" "Some [lit ''username'']"]
  by (simp add: invalid_passcode_def length_lit)

text \<open>
  Claim C3. Leaving the key order out gives the same result as passing the default order
  explicitly: the keys of the payload in their order, without \<^verbatim>\<open>hash\<close> and without
  \<^verbatim>\<open>__keys_order__\<close>.
\<close>

theorem key_order_default_explicit:
  "generate isprintable payload passcode api_key None
     = generate isprintable payload passcode api_key (Some (default_keys payload))"
  by (simp add: generate_def keys_to_sign_def)

theorem key_order_default_explicit_witness:
  "generate sample_isprintable
       [(lit ''username'', PyStr (lit ''user'')), (lit ''hash'', PyStr (lit ''00''))]
       (lit ''mysecretkey12345678901234567890'') (Some (lit ''k'')) None
     = generate sample_isprintable
         [(lit ''username'', PyStr (lit ''user'')), (lit ''hash'', PyStr (lit ''00''))]
         (lit ''mysecretkey12345678901234567890'') (Some (lit ''k'')) (Some [lit ''username''])"
  using key_order_default_explicit [of sample_isprintable
      "[(lit ''username'', PyStr (lit ''user'')), (lit ''hash'', PyStr (lit ''00''))]"
      "lit ''mysecretkey12345678901234567890''" "Some (lit ''k'')"]
  by (simp add: default_keys_def lit_def)

text \<open>
  Claim C7, as stated, fails for the empty sequence: it is not taken verbatim, the keys of
  the payload are signed instead.
\<close>

theorem empty_key_order_counterexample:
  "keys_to_sign [(lit ''amount'', PyStr (lit ''10''))] (Some []) \<noteq> []"
  by (simp add: keys_to_sign_def default_keys_def lit_def)

text \<open>
  Claim C7, amended. A non-empty key order is the resolved order as it stands, duplicates
  and unknown keys included; a key that the payload does not have contributes the empty
  string and raises nothing; and with a valid passcode, fields that can be printed and no
  surrogate in the key or the message, the call returns the digest of the message over
  exactly these fields.
\<close>

theorem key_order_verbatim:
  assumes "ks \<noteq> []"
  shows "keys_to_sign payload (Some ks) = ks
         \<and> (k \<notin> fst ` set payload \<longrightarrow> field_text isprintable payload k = Inr [])
         \<and> (16 \<le> length passcode \<and> list_all (printable_field payload) ks
              \<and> encodable (spec_key passcode)
              \<and> encodable (spec_iv passcode @ (case api_key of None \<Rightarrow> [] | Some a \<Rightarrow> a)
                             @ concat (map (spec_field isprintable payload) ks))
            \<longrightarrow> fst (generate isprintable payload passcode api_key (Some ks))
                = Inr (spec_digest (spec_key passcode)
                        (spec_iv passcode @ (case api_key of None \<Rightarrow> [] | Some a \<Rightarrow> a)
                           @ concat (map (spec_field isprintable payload) ks))))"
proof -
  have order: "keys_to_sign payload (Some ks) = ks"
    using assms by (simp add: keys_to_sign_def)
  have missing: "k \<notin> fst ` set payload \<longrightarrow> field_text isprintable payload k = Inr []"
    by (simp add: field_text_def payload_get_def py_str_def map_of_eq_None_iff [THEN iffD2])
  have signed: "16 \<le> length passcode \<and> list_all (printable_field payload) ks
              \<and> encodable (spec_key passcode)
              \<and> encodable (spec_iv passcode @ (case api_key of None \<Rightarrow> [] | Some a \<Rightarrow> a)
                             @ concat (map (spec_field isprintable payload) ks))
            \<longrightarrow> fst (generate isprintable payload passcode api_key (Some ks))
                = Inr (spec_digest (spec_key passcode)
                        (spec_iv passcode @ (case api_key of None \<Rightarrow> [] | Some a \<Rightarrow> a)
                           @ concat (map (spec_field isprintable payload) ks)))"
    using generate_valid [of passcode payload "Some ks" isprintable api_key] order
    by (simp add: spec_message_def)
  from order missing signed show ?thesis by blast
qed

theorem key_order_verbatim_witness:
  "[lit ''b'', lit ''zz'', lit ''b''] \<noteq> []
   \<and> keys_to_sign [(lit ''a'', PyStr (lit ''1'')), (lit ''b'', PyStr (lit ''2''))]
         (Some [lit ''b'', lit ''zz'', lit ''b''])
       = [lit ''b'', lit ''zz'', lit ''b'']
   \<and> lit ''zz'' \<notin> fst ` set [(lit ''a'', PyStr (lit ''1'')), (lit ''b'', PyStr (lit ''2''))]
   \<and> field_text sample_isprintable
         [(lit ''a'', PyStr (lit ''1'')), (lit ''b'', PyStr (lit ''2''))] (lit ''zz'') = Inr []
   \<and> 16 \<le> length (lit ''mysecretkey12345678901234567890'')
   \<and> fst (generate sample_isprintable
            [(lit ''a'', PyStr (lit ''1'')), (lit ''b'', PyStr (lit ''2''))]
            (lit ''mysecretkey12345678901234567890'') (Some (lit ''k''))
            (Some [lit ''b'', lit ''zz'', lit ''b'']))
       = Inr (spec_digest (lit ''mysecretkey1234'')
               (lit ''5678901234567890'' @ lit ''k'' @ lit ''2'' @ [] @ lit ''2''))"
  using key_order_verbatim [of "[lit ''b'', lit ''zz'', lit ''b'']"
      "[(lit ''a'', PyStr (lit ''1'')), (lit ''b'', PyStr (lit ''2''))]"
      "lit ''zz''" sample_isprintable "lit ''mysecretkey12345678901234567890''" "Some (lit ''k'')"]
  by (simp add: spec_key_def spec_iv_def spec_field_def printable_field_def payload_get_def
      encodable_def is_surrogate_def lit_def)

text \<open>
  Claim C10. An empty key order is resolved to the default order, the keys of the payload
  without \<^verbatim>\<open>hash\<close> and \<^verbatim>\<open>__keys_order__\<close>, and the call gives the same result as
  with no key order; with a valid passcode, fields that can be printed and no surrogate in
  the key or the message, it returns the digest of the message over those fields.
\<close>

theorem empty_key_order_is_absent:
  "keys_to_sign payload (Some []) = default_keys payload
   \<and> keys_to_sign payload (Some []) = keys_to_sign payload None
   \<and> generate isprintable payload passcode api_key (Some [])
       = generate isprintable payload passcode api_key None
   \<and> (16 \<le> length passcode \<and> list_all (printable_field payload) (default_keys payload)
        \<and> encodable (spec_key passcode)
        \<and> encodable (spec_message isprintable payload passcode api_key (default_keys payload))
      \<longrightarrow> generate isprintable payload passcode api_key (Some [])
          = (Inr (spec_digest (spec_key passcode)
                    (spec_message isprintable payload passcode api_key (default_keys payload))),
             [(utf8 (spec_key passcode),
               utf8 (spec_message isprintable payload passcode api_key (default_keys payload)))]))"
proof -
  have order: "keys_to_sign payload (Some []) = default_keys payload"
    by (simp add: keys_to_sign_def)
  have same: "generate isprintable payload passcode api_key (Some [])
                = generate isprintable payload passcode api_key None"
    by (simp add: generate_def keys_to_sign_def)
  show ?thesis
    using order same generate_valid [of passcode payload "Some []" isprintable api_key]
    by (simp add: keys_to_sign_def)
qed

theorem empty_key_order_is_absent_witness:
  "keys_to_sign [(lit ''username'', PyStr (lit ''user'')), (lit ''hash'', PyStr (lit ''00''))]
       (Some [])
     = [lit ''username'']
   \<and> generate sample_isprintable
         [(lit ''username'', PyStr (lit ''user'')), (lit ''hash'', PyStr (lit ''00''))]
         (lit ''mysecretkey12345678901234567890'') (Some (lit ''k'')) (Some [])
       = (Inr (spec_digest (lit ''mysecretkey1234'')
                 (lit ''5678901234567890'' @ lit ''k'' @ lit ''user'')),
          [(utf8 (lit ''mysecretkey1234''),
            utf8 (lit ''5678901234567890'' @ lit ''k'' @ lit ''user''))])
   \<and> lit ''5678901234567890'' @ lit ''k'' @ lit ''user'' \<noteq> lit ''5678901234567890'' @ lit ''k''"
  using empty_key_order_is_absent [of
      "[(lit ''username'', PyStr (lit ''user'')), (lit ''hash'', PyStr (lit ''00''))]"
      sample_isprintable "lit ''mysecretkey12345678901234567890''" "Some (lit ''k'')"]
  by (auto simp add: keys_to_sign_def default_keys_def spec_message_def spec_key_def spec_iv_def
      spec_field_def printable_field_def payload_get_def encodable_def is_surrogate_def lit_def)

section \<open>Properties of the engine\<close>

lemma starts_with_append: "starts_with (n @ r) n"
  by (induction n) simp_all

lemma starts_with_suffix: "starts_with s n \<Longrightarrow> starts_with (s @ q) n"
  by (induction s n rule: starts_with.induct) simp_all

lemma py_in_empty: "py_in [] s"
  by (cases s) simp_all

lemma py_in_suffix: "py_in n s \<Longrightarrow> py_in n (s @ q)"
proof (induction s)
  case Nil
  then show ?case by (simp add: py_in_empty)
next
  case (Cons c cs)
  then show ?case using starts_with_suffix [of "c # cs" n q] by auto
qed

lemma py_in_prefix: "py_in n s \<Longrightarrow> py_in n (p @ s)"
  by (induction p) simp_all

lemma py_in_self: "py_in n (n @ q)"
proof (cases n)
  case Nil
  then show ?thesis by (simp add: py_in_empty)
next
  case (Cons c cs)
  then show ?thesis using starts_with_append [of "c # cs" q] by simp
qed

lemma py_in_middle: "py_in n (p @ n @ q)"
  by (rule py_in_prefix) (rule py_in_self)

lemma starts_with_iff: "starts_with s n \<longleftrightarrow> (\<exists>q. s = n @ q)"
  by (induction s n rule: starts_with.induct) auto

lemma py_in_iff: "py_in n s \<longleftrightarrow> (\<exists>p q. s = p @ n @ q)"
proof (induction s)
  case Nil
  then show ?case by auto
next
  case (Cons c cs)
  show ?case
  proof
    assume "py_in n (c # cs)"
    then consider "starts_with (c # cs) n" | "py_in n cs" by auto
    then show "\<exists>p q. c # cs = p @ n @ q"
    proof cases
      case 1
      then obtain q where "c # cs = n @ q" using starts_with_iff by blast
      then have "c # cs = [] @ n @ q" by simp
      then show ?thesis by blast
    next
      case 2
      then obtain p q where "cs = p @ n @ q" using Cons.IH by blast
      then have "c # cs = (c # p) @ n @ q" by simp
      then show ?thesis by blast
    qed
  next
    assume "\<exists>p q. c # cs = p @ n @ q"
    then obtain p q where "c # cs = p @ n @ q" by blast
    then show "py_in n (c # cs)" using py_in_middle [of n p q] by simp
  qed
qed

lemma positional_argument_in:
  assumes "py_in (lit ''positional argument'') s"
  shows "py_in (lit ''argument'') s"
proof -
  obtain p q where "s = p @ lit ''positional argument'' @ q"
    using assms py_in_iff by blast
  moreover have "lit ''positional argument'' = lit ''positional '' @ lit ''argument''"
    by (simp add: lit_def)
  ultimately have "s = (p @ lit ''positional '') @ lit ''argument'' @ q" by simp
  then show ?thesis using py_in_middle by metis
qed

lemma too_many_msg_argument: "py_in (lit ''argument'') (too_many_msg name k d n)"
proof -
  have "too_many_msg name k d n =
      (name @ lit ''() takes ''
         @ (if d = 0 then str_of_nat k
            else lit ''from '' @ str_of_nat (k - d) @ lit '' to '' @ str_of_nat k)
         @ lit '' positional '')
      @ lit ''argument''
      @ ((if d = 0 \<and> k = 1 then [] else lit ''s'')
         @ lit '' but '' @ str_of_nat n @ (if n = 1 then lit '' was'' else lit '' were'')
         @ lit '' given'')"
    unfolding too_many_msg_def by simp
  then show ?thesis using py_in_middle by metis
qed

lemma missing_msg_argument: "py_in (lit ''argument'') (missing_msg name ms)"
proof -
  have "missing_msg name ms =
      (name @ lit ''() missing '' @ str_of_nat (length ms) @ lit '' required positional '')
      @ lit ''argument''
      @ ((if length ms = 1 then [] else lit ''s'') @ lit '': '' @ name_list (map quoted ms))"
    unfolding missing_msg_def by simp
  then show ?thesis using py_in_middle by metis
qed

lemma not_callable_no_argument:
  "\<not> py_in (lit ''argument'') (quoted (type_name v) @ lit '' object is not callable'')"
  by (cases v) (simp_all add: quoted_def lit_def single_quote_def)

lemma str_of_nat_digit: "n < 10 \<Longrightarrow> str_of_nat n = [48 + n]"
  by (subst str_of_nat.simps) simp

lemma call_three_params_four_args:
  assumes "length params = 3"
  shows "py_call (Function name params defaults body) [a, b, c, d]
           = Inl (PyExc TypeError (Inr (too_many_msg name 3 (length defaults) 4)) [])"
proof -
  have n: "length [a, b, c, d] = 4" by simp
  show ?thesis
    unfolding py_call.simps Let_def n using assms by simp
qed

lemma call_three_params_three_args:
  assumes "length params = 3" "length defaults \<le> 3"
  shows "py_call (Function name params defaults body) [a, b, c] = body [a, b, c]"
proof -
  have n: "length [a, b, c] = 3" by simp
  have d: "3 - (3 - length defaults) = length defaults" using assms(2) by arith
  have nl: "\<not> (3::nat) < 3 - length defaults" by arith
  show ?thesis
    unfolding py_call.simps Let_def n using assms d nl by simp
qed


lemma call_generate_returns:
  assumes "py_call f [p, pc, ak, ko] = Inr v"
  shows "call_generate f p pc ak ko = Inr v"
  using assms unfolding call_generate_def by simp

lemma call_generate_raises:
  assumes "py_call f [p, pc, ak, ko] = Inl te"
  shows "call_generate f p pc ak ko
           = (if is_TypeError te then
                (case exc_str te of
                   Inl e \<Rightarrow> Inl (AtMessage te, e)
                 | Inr message \<Rightarrow>
                     if py_in (lit ''argument'') message
                     then (case py_call f [p, pc, ak] of
                             Inr v \<Rightarrow> Inr v
                           | Inl e \<Rightarrow> Inl (AtRetry te, e))
                     else Inl (AtReraise, te))
              else Inl (AtCall, te))"
  using assms positional_argument_in unfolding call_generate_def
  by (auto split: sum.splits)


lemma execute_snippet_bound:
  assumes "local_scope (lit ''generate'') = Some f"
  shows "execute_snippet fmt (ExecDone local_scope) p pc ak ko =
           (case call_generate f p pc ak ko of
              Inr v \<Rightarrow> Inr v
            | Inl (site, e) \<Rightarrow>
                if is_Exception e then
                  (case exc_str e of
                     Inl raised \<Rightarrow> Inl raised
                   | Inr message \<Rightarrow>
                       Inr (PyStr (lit ''Error: '' @ message @ [newline] @ fmt site e)))
                else Inl e)"
  using assms by (simp add: execute_snippet_def try_body_def)


lemma not_callable_call:
  "call_generate (Object v) p pc ak ko = Inl (AtReraise, not_callable v)"
  using call_generate_raises [of "Object v" p pc ak ko "not_callable v"]
    not_callable_no_argument [of v]
  by (simp add: not_callable_def)

lemma default_function_call:
  "py_call default_function [PyDict payload, PyStr passcode, PyStr api_key, PyNone]
     = (case fst (generate sample_isprintable payload passcode (Some api_key) None) of
          Inl e \<Rightarrow> Inl e
        | Inr signature \<Rightarrow> Inr (PyStr signature))"
proof -
  have n: "length [PyDict payload, PyStr passcode, PyStr api_key, PyNone] = 4" by simp
  show ?thesis
    unfolding default_function_def py_call.simps Let_def n by (simp add: lit_def)
qed





text \<open>
  Claim C5, as stated, fails for a snippet that binds the name \<^verbatim>\<open>generate\<close> to something
  that is not callable, such as \<^verbatim>\<open>generate = 5\<close>: the name is present in the namespace,
  the call raises, and the text returned is that of the \<^verbatim>\<open>TypeError\<close>, which does not
  mention the entry point.
\<close>

theorem not_callable_counterexample:
  "execute_snippet sample_format_exc not_callable_snippet
       (PyDict []) (PyStr (lit ''0123456789abcdef'')) (PyStr []) PyNone
     = Inr (PyStr (lit ''Error: 'int' object is not callable'' @ [newline] @ traceback_header))
   \<and> \<not> py_in (lit ''generate'')
         (lit ''Error: 'int' object is not callable'' @ [newline] @ traceback_header)"
proof -
  have bound: "[lit ''generate'' \<mapsto> Object (PyInt 5)] (lit ''generate'') = Some (Object (PyInt 5))"
    by simp
  have result: "execute_snippet sample_format_exc not_callable_snippet
       (PyDict []) (PyStr (lit ''0123456789abcdef'')) (PyStr []) PyNone
     = Inr (PyStr (lit ''Error: 'int' object is not callable'' @ [newline] @ traceback_header))"
    unfolding not_callable_snippet_def
      execute_snippet_bound [of "[lit ''generate'' \<mapsto> Object (PyInt 5)]" "Object (PyInt 5)",
        OF bound]
      not_callable_call
    by (simp add: not_callable_def sample_format_exc_def quoted_def lit_def single_quote_def)
  have unnamed: "\<not> py_in (lit ''generate'')
         (lit ''Error: 'int' object is not callable'' @ [newline] @ traceback_header)"
    by (simp add: traceback_header_def lit_def newline_def)
  from result unnamed show ?thesis by blast
qed

text \<open>
  Claim C5, amended. When the top level of the snippet runs to its end and leaves no name
  \<^verbatim>\<open>generate\<close> in its namespace, \<open>execute_snippet\<close> returns the text
  \<^verbatim>\<open>Error: Snippet must define a 'generate' function.\<close> followed by the traceback, and
  raises nothing; when the name is bound to a value that is not a function, it returns the
  text of the \<^verbatim>\<open>TypeError\<close> of the call.
\<close>

theorem missing_generate_reported:
  "(local_scope (lit ''generate'') = None \<longrightarrow>
      execute_snippet fmt (ExecDone local_scope) payload passcode api_key key_order
        = Inr (PyStr (lit ''Error: Snippet must define a 'generate' function.'' @ [newline]
                 @ fmt AtCheck missing_generate)))
   \<and> exc_str missing_generate = Inr (lit ''Snippet must define a 'generate' function.'')
   \<and> py_in (lit ''generate'') (lit ''Snippet must define a 'generate' function.'')
   \<and> (local_scope (lit ''generate'') = Some (Object v) \<longrightarrow>
        execute_snippet fmt (ExecDone local_scope) payload passcode api_key key_order
          = Inr (PyStr (lit ''Error: '' @ [single_quote] @ type_name v @ [single_quote]
                   @ lit '' object is not callable'' @ [newline]
                   @ fmt AtReraise (not_callable v))))"
proof -
  have absent: "local_scope (lit ''generate'') = None \<longrightarrow>
      execute_snippet fmt (ExecDone local_scope) payload passcode api_key key_order
        = Inr (PyStr (lit ''Error: Snippet must define a 'generate' function.'' @ [newline]
                 @ fmt AtCheck missing_generate))"
    by (simp add: execute_snippet_def try_body_def missing_generate_def lit_def)
  have message: "exc_str missing_generate = Inr (lit ''Snippet must define a 'generate' function.'')"
    by (simp add: missing_generate_def)
  have named: "py_in (lit ''generate'') (lit ''Snippet must define a 'generate' function.'')"
    by (simp add: lit_def)
  have plain: "local_scope (lit ''generate'') = Some (Object v) \<longrightarrow>
        execute_snippet fmt (ExecDone local_scope) payload passcode api_key key_order
          = Inr (PyStr (lit ''Error: '' @ [single_quote] @ type_name v @ [single_quote]
                   @ lit '' object is not callable'' @ [newline]
                   @ fmt AtReraise (not_callable v)))"
    using execute_snippet_bound [of local_scope "Object v" fmt payload passcode api_key key_order]
      not_callable_call [of v payload passcode api_key key_order]
    by (simp add: not_callable_def quoted_def)
  from absent message named plain show ?thesis by blast
qed

theorem missing_generate_reported_witness:
  "Map.empty (lit ''generate'') = (None :: pyobj option)
   \<and> execute_snippet sample_format_exc (ExecDone Map.empty)
         (PyDict []) (PyStr (lit ''0123456789abcdef'')) (PyStr []) PyNone
       = Inr (PyStr (lit ''Error: Snippet must define a 'generate' function.'' @ [newline]
                @ traceback_header))"
  using missing_generate_reported [of Map.empty sample_format_exc "PyDict []"
      "PyStr (lit ''0123456789abcdef'')" "PyStr []" PyNone]
  by (simp add: sample_format_exc_def)




text \<open>
  Claim C8, as stated, fails for an entry point that returns a value that is not a string:
  \<open>execute_snippet\<close> returns the integer itself, not its string form.
\<close>

theorem integer_result_counterexample:
  "execute_snippet sample_format_exc integer_snippet
       (PyDict []) (PyStr (lit ''0123456789abcdef'')) (PyStr []) PyNone
     = Inr (PyInt 5)
   \<and> py_str sample_isprintable (PyInt 5) = Inr (lit ''5'')
   \<and> PyInt 5 \<noteq> PyStr (lit ''5'')"
proof -
  have n: "length [PyDict [], PyStr (lit ''0123456789abcdef''), PyStr [], PyNone] = 4"
    by simp
  have call: "py_call integer_function
                [PyDict [], PyStr (lit ''0123456789abcdef''), PyStr [], PyNone] = Inr (PyInt 5)"
    unfolding integer_function_def py_call.simps Let_def n by simp
  have bound: "[lit ''generate'' \<mapsto> integer_function] (lit ''generate'') = Some integer_function"
    by simp
  have result: "execute_snippet sample_format_exc integer_snippet
       (PyDict []) (PyStr (lit ''0123456789abcdef'')) (PyStr []) PyNone
     = Inr (PyInt 5)"
    unfolding integer_snippet_def
      execute_snippet_bound [of "[lit ''generate'' \<mapsto> integer_function]" integer_function,
        OF bound]
      call_generate_returns [OF call]
    by simp
  have five: "str_of_nat 5 = [53]"
    using str_of_nat_digit [of 5] by simp
  have printed: "py_str sample_isprintable (PyInt 5) = Inr (lit ''5'')"
    by (simp add: py_str_def str_of_int_def five int_max_str_digits_def lit_def)
  from result printed show ?thesis by simp
qed

text \<open>
  Claim C8, amended. When the entry point returns a value, from the call with four
  arguments or from the second call with three, \<open>execute_snippet\<close> returns that value as
  it is.
\<close>

theorem result_returned_unchanged:
  "(local_scope (lit ''generate'') = Some f
      \<and> py_call f [payload, passcode, api_key, key_order] = Inr v
    \<longrightarrow> execute_snippet fmt (ExecDone local_scope) payload passcode api_key key_order = Inr v)
   \<and> (local_scope (lit ''generate'') = Some f
        \<and> py_call f [payload, passcode, api_key, key_order] = Inl te
        \<and> is_TypeError te \<and> exc_str te = Inr tm \<and> py_in (lit ''argument'') tm
        \<and> py_call f [payload, passcode, api_key] = Inr v
      \<longrightarrow> execute_snippet fmt (ExecDone local_scope) payload passcode api_key key_order = Inr v)"
  using execute_snippet_bound [of local_scope f fmt payload passcode api_key key_order]
    call_generate_returns [of f payload passcode api_key key_order v]
    call_generate_raises [of f payload passcode api_key key_order te]
  by simp

text \<open>
  The default snippet on the example of the specification, the snippet that returns 5,
  and the snippet with three parameters, whose value comes from the second call.
\<close>

theorem result_returned_unchanged_witness:
  "execute_snippet sample_format_exc default_snippet
       (PyDict [(lit ''username'', PyStr (lit ''user'')),
                (lit ''request_time'', PyStr (lit ''20260101010101''))])
       (PyStr (lit ''mysecretkey12345678901234567890'')) (PyStr []) PyNone
     = Inr (PyStr (spec_digest (lit ''mysecretkey1234'')
                     (lit ''5678901234567890user20260101010101'')))
   \<and> execute_snippet sample_format_exc integer_snippet
         (PyDict []) (PyStr (lit ''0123456789abcdef'')) (PyStr []) PyNone
       = Inr (PyInt 5)
   \<and> is_TypeError (PyExc TypeError (Inr (too_many_msg (lit ''generate'') 3 0 4)) [])
   \<and> py_in (lit ''argument'') (too_many_msg (lit ''generate'') 3 0 4)
   \<and> execute_snippet sample_format_exc three_parameter_snippet
         (PyDict []) (PyStr (lit ''0123456789abcdef'')) (PyStr []) PyNone
       = Inr (PyStr (lit ''0123456789abcdef''))"
proof -
  let ?payload = "[(lit ''username'', PyStr (lit ''user'')),
                   (lit ''request_time'', PyStr (lit ''20260101010101''))]"
  let ?passcode = "lit ''mysecretkey12345678901234567890''"
  let ?digest = "spec_digest (lit ''mysecretkey1234'') (lit ''5678901234567890user20260101010101'')"
  let ?te = "PyExc TypeError (Inr (too_many_msg (lit ''generate'') 3 0 4)) []"
  have signature: "fst (generate sample_isprintable ?payload ?passcode (Some []) None) = Inr ?digest"
    using generate_valid [of ?passcode ?payload None sample_isprintable "Some []"]
    by (simp add: spec_message_def spec_key_def spec_iv_def spec_field_def keys_to_sign_def
        default_keys_def printable_field_def payload_get_def encodable_def is_surrogate_def
        lit_def)
  have signed: "py_call default_function [PyDict ?payload, PyStr ?passcode, PyStr [], PyNone]
                  = Inr (PyStr ?digest)"
    unfolding default_function_call signature by simp
  have n: "length [PyDict [], PyStr (lit ''0123456789abcdef''), PyStr [], PyNone] = 4"
    by simp
  have five: "py_call integer_function
                [PyDict [], PyStr (lit ''0123456789abcdef''), PyStr [], PyNone] = Inr (PyInt 5)"
    unfolding integer_function_def py_call.simps Let_def n by simp
  have four: "py_call three_parameter_function
                [PyDict [], PyStr (lit ''0123456789abcdef''), PyStr [], PyNone] = Inl ?te"
    unfolding three_parameter_function_def
    using call_three_params_four_args
            [of "[lit ''payload'', lit ''passcode'', lit ''api_key'']" "lit ''generate''" "[]"]
    by simp
  have three: "py_call three_parameter_function
                 [PyDict [], PyStr (lit ''0123456789abcdef''), PyStr []]
                 = Inr (PyStr (lit ''0123456789abcdef''))"
    unfolding three_parameter_function_def
    using call_three_params_three_args
            [of "[lit ''payload'', lit ''passcode'', lit ''api_key'']" "[]" "lit ''generate''"]
    by simp
  have contains: "py_in (lit ''argument'') (too_many_msg (lit ''generate'') 3 0 4)"
    by (rule too_many_msg_argument)
  show ?thesis
    using result_returned_unchanged [where fmt = sample_format_exc
        and local_scope = "[lit ''generate'' \<mapsto> default_function]" and f = default_function
        and payload = "PyDict ?payload" and passcode = "PyStr ?passcode"
        and api_key = "PyStr []" and key_order = PyNone and v = "PyStr ?digest",
        THEN conjunct1]
      result_returned_unchanged [where fmt = sample_format_exc
        and local_scope = "[lit ''generate'' \<mapsto> integer_function]" and f = integer_function
        and payload = "PyDict []" and passcode = "PyStr (lit ''0123456789abcdef'')"
        and api_key = "PyStr []" and key_order = PyNone and v = "PyInt 5", THEN conjunct1]
      result_returned_unchanged [where fmt = sample_format_exc
        and local_scope = "[lit ''generate'' \<mapsto> three_parameter_function]"
        and f = three_parameter_function
        and payload = "PyDict []" and passcode = "PyStr (lit ''0123456789abcdef'')"
        and api_key = "PyStr []" and key_order = PyNone
        and v = "PyStr (lit ''0123456789abcdef'')" and te = ?te
        and tm = "too_many_msg (lit ''generate'') 3 0 4", THEN conjunct2]
      signed five four three contains
    by (simp add: default_snippet_def integer_snippet_def three_parameter_snippet_def)
qed

section \<open>Properties of the store\<close>





end
